theory Spec2Isabelle
  imports Complex_Main
begin

section \<open>Machine integers of the downloader\<close>

text \<open>
  \<^verbatim>\<open>internal/downloader/manager.go\<close> computes byte offsets in Go's \<^verbatim>\<open>int64\<close>.
  The model keeps them as \<^typ>\<open>int\<close> and writes the two's-complement wrap-around out:
  \<open>int64 x\<close> is the value an \<^verbatim>\<open>int64\<close> holds after an operation whose exact result
  is \<open>x\<close>. Go's \<^verbatim>\<open>/\<close> truncates towards zero and panics on a zero divisor; the
  panic is a branch of the caller (\<open>startDownload\<close>), so \<open>go_quot\<close> is only the
  truncating quotient.
\<close>

definition int64 :: "int \<Rightarrow> int" where
  "int64 x = (x + 2 ^ 63) mod 2 ^ 64 - 2 ^ 63"

definition go_quot :: "int \<Rightarrow> int \<Rightarrow> int" where
  "go_quot a b = int64 (sgn a * sgn b * (\<bar>a\<bar> div \<bar>b\<bar>))"

section \<open>Chunk ranges\<close>

text \<open>
  \<^verbatim>\<open>startDownload\<close> (manager.go:134) computes
  \<^verbatim>\<open>chunkSize := d.TotalSize / int64(d.Chunks)\<close> once and hands it to every worker.
  \<^verbatim>\<open>downloadChunk\<close> (manager.go:200-207) derives the range of its chunk:
  \<^verbatim>\<open>
  startByte := int64(chunkIndex) * chunkSize
  endByte := startByte + chunkSize - 1
  if chunkIndex == d.Chunks-1 { endByte = d.TotalSize - 1 }
  actualChunkSize := endByte - startByte + 1
  \<close>
  The functions below take \<open>TotalSize\<close> and \<open>Chunks\<close> as arguments; the versions on
  the \<open>Download\<close> record follow with \<open>downloadChunk\<close>.
\<close>

definition chunkSize_of :: "int \<Rightarrow> int \<Rightarrow> int" where
  "chunkSize_of totalSize chunks = go_quot totalSize chunks"

definition startByte :: "int \<Rightarrow> int \<Rightarrow> int" where
  "startByte chunkIndex chunkSize = int64 (chunkIndex * chunkSize)"

definition endByte :: "int \<Rightarrow> int \<Rightarrow> int \<Rightarrow> int \<Rightarrow> int" where
  "endByte totalSize chunks chunkIndex chunkSize =
     (if chunkIndex = int64 (chunks - 1) then int64 (totalSize - 1)
      else int64 (int64 (startByte chunkIndex chunkSize + chunkSize) - 1))"

definition actualChunkSize :: "int \<Rightarrow> int \<Rightarrow> int \<Rightarrow> int \<Rightarrow> int" where
  "actualChunkSize totalSize chunks chunkIndex chunkSize =
     int64 (int64 (endByte totalSize chunks chunkIndex chunkSize
                   - startByte chunkIndex chunkSize) + 1)"

text \<open>The bytes a chunk asks for: the closed interval of its \<^verbatim>\<open>Range\<close> header.\<close>

definition chunk_bytes :: "int \<Rightarrow> int \<Rightarrow> int \<Rightarrow> int set" where
  "chunk_bytes totalSize chunks i =
     {startByte i (chunkSize_of totalSize chunks) ..
      endByte totalSize chunks i (chunkSize_of totalSize chunks)}"


section \<open>Data model\<close>

text \<open>
  \<^verbatim>\<open>fmt.Sprintf("%d", n)\<close>: the decimal rendering used for identifiers, chunk file
  names and \<^verbatim>\<open>Range\<close> headers.
\<close>

definition digit_char :: "nat \<Rightarrow> char" where
  "digit_char n = ''0123456789'' ! (n mod 10)"

fun show_nat :: "nat \<Rightarrow> string" where
  "show_nat n = (if n < 10 then [digit_char n] else show_nat (n div 10) @ [digit_char n])"

definition show_int :: "int \<Rightarrow> string" where
  "show_int i = (if i < 0 then CHR ''-'' # show_nat (nat (- i)) else show_nat (nat i))"

text \<open>
  A Go \<^verbatim>\<open>error\<close> is a message; the model keeps one constructor per
  \<^verbatim>\<open>fmt.Errorf\<close> site of manager.go with the values the message is formatted from.
  \<open>EnvErr\<close> is an error handed back by \<^verbatim>\<open>net/http\<close>, \<^verbatim>\<open>os\<close> or \<^verbatim>\<open>io\<close>.
\<close>

datatype err =
    EnvErr string
  | NotFound
  | Cancelled
  | ChunkRequest int err
  | ChunkDo int err
  | ChunkStatus int int
  | ChunkTempFile int err
  | ChunkRead int err
  | ChunkWrite int err
  | ChunkIncomplete int int int
  | ChunkFailed int err
  | SomeChunksFailed "err list"
  | MergeCreate err
  | MergeOpen int err
  | MergeCopy int err
  | MergeMismatch int int

datatype DownloadStatus =
  StatusPending | StatusDownloading | StatusPaused | StatusCompleted | StatusError

text \<open>
  The \<^verbatim>\<open>Download\<close> struct (manager.go:22-44). \<^verbatim>\<open>float64\<close> fields are exact reals
  here (no rounding, no infinities). The fields derived from the wall clock
  (\<^verbatim>\<open>Speed\<close>, \<^verbatim>\<open>TimeRemaining\<close>, \<^verbatim>\<open>StartTime\<close>, \<^verbatim>\<open>lastDownloaded\<close>,
  \<^verbatim>\<open>lastUpdateTime\<close>) and the lock are left out; \<^verbatim>\<open>pauseChan\<close> is part of the
  system state of the pause section. \<open>Error\<close> is \<open>None\<close> for Go's empty string.
\<close>

record Download =
  ID :: string
  URL :: string
  Filename :: string
  OutputPath :: string
  Status :: DownloadStatus
  Progress :: real
  TotalSize :: int
  Downloaded :: int
  Chunks :: int
  ChunkProgress :: "real list"
  Error :: "err option"
  ConnectTimeout :: string
  ReadTimeout :: string

text \<open>
  The registry \<^verbatim>\<open>Manager.downloads\<close>: a Go map from identifier to \<^verbatim>\<open>*Download\<close>.
  The model stores the current value of the object under its identifier. The listener
  channels and \<^verbatim>\<open>broadcastUpdate\<close> are not modelled: events change no field and no
  file.
\<close>

type_synonym Manager = "string \<rightharpoonup> Download"

text \<open>The disk: path to content. Directories are not modelled (\<^verbatim>\<open>os.MkdirAll\<close>).\<close>

type_synonym fs = "string \<rightharpoonup> string"

text \<open>
  The outcome of a call: it returns; it does not return because the goroutine panics or
  the runtime ends the process with a fatal error (\<open>Panic\<close>, with the message); or it
  never returns (a \<^verbatim>\<open>Read\<close> that blocks for ever).
\<close>

datatype 'a outcome = Return 'a | Panic string | Blocked

section \<open>Environment\<close>

text \<open>
  One \<^verbatim>\<open>resp.Body.Read(buffer)\<close> returns \<open>(n, err)\<close>: the bytes read and \<open>None\<close>,
  \<open>Some EOF\<close> or another error. A body is the list of the results its successive
  reads give; when the list is used up the next read blocks for ever (the origin has
  stalled). The 32 KiB bound on one read is a property of the list.
\<close>

datatype read_err = EOF | ReadFailure err

type_synonym read_result = "string \<times> read_err option"

record response =
  StatusCode :: int
  ContentLength :: int
  AcceptRanges :: string
  Body :: "read_result list"

text \<open>
  What the network and the operating system answer:
  \<^item> \<open>http_Head url\<close>: \<^verbatim>\<open>http.Head(url)\<close>; \<open>ContentLength\<close> is \<^verbatim>\<open>-1\<close> when unknown,
    \<open>AcceptRanges\<close> is \<^verbatim>\<open>resp.Header.Get("Accept-Ranges")\<close>;
  \<^item> \<open>http_NewRequest url\<close>: the error of \<^verbatim>\<open>http.NewRequest("GET", url, nil)\<close>, if any;
  \<^item> \<open>client_Do url range\<close>: \<^verbatim>\<open>client.Do(req)\<close> for the GET with that \<^verbatim>\<open>Range\<close>
    header (\<open>None\<close>: no header);
  \<^item> \<open>os_Create path\<close>: the error of \<^verbatim>\<open>os.Create(path)\<close>, if any;
  \<^item> \<open>file_Write path off\<close>: the error of the \<^verbatim>\<open>Write\<close> at offset \<open>off\<close> of that
    file, if any;
  \<^item> \<open>io_Copy path\<close>: \<^verbatim>\<open>io.Copy\<close> from that file fails after so many bytes, if it
    fails;
  \<^item> \<open>ticker k\<close>: the one-second ticker of \<^verbatim>\<open>downloadSingleFile\<close> fires while the
    loop of that function is about to make its pass number \<open>k\<close> (counted from 0).
  \<^verbatim>\<open>os.Open\<close> fails exactly when the path is absent; \<^verbatim>\<open>os.Remove\<close> removes the path
  (the source discards its error).
\<close>

record env =
  http_Head :: "string \<Rightarrow> err + response"
  http_NewRequest :: "string \<Rightarrow> err option"
  client_Do :: "string \<Rightarrow> string option \<Rightarrow> err + response"
  os_Create :: "string \<Rightarrow> err option"
  file_Write :: "string \<Rightarrow> int \<Rightarrow> err option"
  io_Copy :: "string \<Rightarrow> (nat \<times> err) option"
  ticker :: "nat \<Rightarrow> bool"

text \<open>
  A write through an open file appends to the content of its path. When the path has
  been removed meanwhile the bytes go to the unlinked file and no path shows them.
\<close>

definition append_file :: "fs \<Rightarrow> string \<Rightarrow> string \<Rightarrow> fs" where
  "append_file disk path bytes =
     (case disk path of None \<Rightarrow> disk | Some old \<Rightarrow> disk(path \<mapsto> old @ bytes))"

section \<open>Creating a download\<close>

text \<open>
  \<^verbatim>\<open>generateID\<close> (manager.go:633) formats \<^verbatim>\<open>time.Now().UnixNano()\<close>; the clock
  reading is an argument.
\<close>

definition generateID :: "int \<Rightarrow> string" where
  "generateID unixNano = show_int unixNano"

text \<open>
  The Go runtime refuses an allocation of more than \<open>maxAlloc\<close> bytes (\<open>2 ^ 48\<close> on
  64-bit Linux): \<^verbatim>\<open>make\<close> panics on a negative length and on a length whose
  elements need more. A \<^verbatim>\<open>float64\<close> takes 8 bytes, an \<^verbatim>\<open>error\<close> 16, the header of
  a channel 96. Below that limit an allocation succeeds when the machine has the
  memory: for \<^verbatim>\<open>make([]float64, chunks)\<close> the bytes the runtime can still obtain are the
  argument \<open>heap\<close> of \<open>AddDownload\<close>, and asking for more ends the process with the
  fatal error \<^verbatim>\<open>out of memory\<close>. The other, small allocations are taken to succeed.
\<close>

definition maxAlloc :: int where
  "maxAlloc = 2 ^ 48"

text \<open>
  \<^verbatim>\<open>AddDownload\<close> (manager.go:65-97). \<open>t_path\<close> and \<open>t_id\<close> are the clock readings of
  its two \<^verbatim>\<open>generateID\<close> calls. \<^verbatim>\<open>make([]float64, chunks)\<close> is the one statement
  that can end the call early. The function has no other exit than
  \<^verbatim>\<open>return download, nil\<close>.

  The value returned is a pointer to the object just stored in the registry; the model
  returns the identifier under which the registry holds it. The registry of the result
  holds the object as created. The goroutine started at line 94 (\<open>startDownload\<close> below)
  writes to that object from then on, so what a caller reads through the pointer later
  is the object as the controller has left it by then.
\<close>

definition AddDownload ::
  "Manager \<Rightarrow> string \<Rightarrow> string \<Rightarrow> int \<Rightarrow> string \<Rightarrow> string \<Rightarrow> int \<Rightarrow> int \<Rightarrow> int
     \<Rightarrow> (string \<times> Manager) outcome" where
  "AddDownload m url filename chunks connectTimeout readTimeout heap t_path t_id =
     (let outputPath =
            (if filename = [] then ''downloads/download_'' @ generateID t_path
             else ''downloads/'' @ filename)
      in if chunks < 0 \<or> maxAlloc < 8 * chunks then Panic ''makeslice: len out of range''
         else if heap < 8 * chunks then Panic ''fatal error: runtime: out of memory''
         else
           let download =
                 \<lparr>ID = generateID t_id, URL = url, Filename = filename,
                  OutputPath = outputPath, Status = StatusPending, Progress = 0,
                  TotalSize = 0, Downloaded = 0, Chunks = chunks,
                  ChunkProgress = replicate (nat chunks) 0, Error = None,
                  ConnectTimeout = connectTimeout, ReadTimeout = readTimeout\<rparr>
           in Return (ID download, m(ID download \<mapsto> download)))"

text \<open>
  \<^verbatim>\<open>createDownload\<close> (handlers.go:54-85): the decoded JSON body, or the decoder's error,
  is the argument. The result is the HTTP status with the \<^verbatim>\<open>Download\<close> it encodes.
  \<open>AddDownload\<close> returns no error, so the handler's answer 500 has no branch here.

  \<^verbatim>\<open>json.NewEncoder(w).Encode(download)\<close> (line 84) reads the shared object after the
  controller has been started. \<open>seen\<close> is what the controller has made of the created
  object by that time: the identity when it has not run yet, and otherwise whatever
  its writes have led to. Every function is admitted for \<open>seen\<close>.
\<close>

record CreateDownloadRequest =
  req_URL :: string
  req_Filename :: string
  req_Chunks :: int
  req_ConnectTimeout :: string
  req_ReadTimeout :: string

definition createDownload ::
  "Manager \<Rightarrow> err + CreateDownloadRequest \<Rightarrow> int \<Rightarrow> int \<Rightarrow> int \<Rightarrow> (Download \<Rightarrow> Download)
     \<Rightarrow> ((int \<times> Download option) \<times> Manager) outcome" where
  "createDownload m decoded heap t_path t_id seen =
     (case decoded of
        Inl e \<Rightarrow> Return ((400, None), m)
      | Inr req \<Rightarrow>
          (case AddDownload m (req_URL req) (req_Filename req) (req_Chunks req)
                  (req_ConnectTimeout req) (req_ReadTimeout req) heap t_path t_id of
             Return (ident, m') \<Rightarrow> Return ((200, map_option seen (m' ident)), m')
           | Panic s \<Rightarrow> Panic s
           | Blocked \<Rightarrow> Blocked))"

section \<open>Fetching one chunk\<close>

definition chunkFileName :: "string \<Rightarrow> int \<Rightarrow> string" where
  "chunkFileName ident i = ''chunk_'' @ ident @ ''_'' @ show_int i @ ''.tmp''"

definition range_header :: "int \<Rightarrow> int \<Rightarrow> string" where
  "range_header s e = ''bytes='' @ show_int s @ ''-'' @ show_int e"

text \<open>
  \<^verbatim>\<open>float64(downloaded) / float64(actualChunkSize) * 100\<close> (manager.go:264), as an
  exact real: the value of the code where quotient and product are exact in
  \<^verbatim>\<open>float64\<close>. Where \<^verbatim>\<open>float64\<close> rounds, the code's value is the rounded one, and
  for an expected size of 0 the code's quotient is infinite or not a number, while
  the real quotient of the model is 0.
\<close>

definition chunk_percent :: "int \<Rightarrow> int \<Rightarrow> real" where
  "chunk_percent downloaded actual = real_of_int downloaded / real_of_int actual * 100"

text \<open>
  The state a fetch loop works on: the shared \<^verbatim>\<open>Download\<close>, the disk and the local
  counter \<^verbatim>\<open>downloaded\<close>. One pass through the \<^verbatim>\<open>default:\<close> branch of the loop
  (manager.go:248-278) continues, breaks out of the loop, or returns an error.
  \<^verbatim>\<open>d.ChunkProgress[chunkIndex] = ...\<close> panics when the index is out of range.
\<close>

type_synonym loop_state = "Download \<times> fs \<times> int"

datatype iter = Continue loop_state | Break loop_state | Fail err loop_state | Crash

definition chunk_iteration ::
  "env \<Rightarrow> string \<Rightarrow> int \<Rightarrow> int \<Rightarrow> read_result \<Rightarrow> loop_state \<Rightarrow> iter" where
  "chunk_iteration e tempFileName chunkIndex actual r st =
     (case st of (d, disk, downloaded) \<Rightarrow>
      (case r of (bytes, rerr) \<Rightarrow>
       (case rerr of
          Some (ReadFailure x) \<Rightarrow> Fail (ChunkRead chunkIndex x) st
        | _ \<Rightarrow>
          if length bytes = 0 then Break st
          else
            (case file_Write e tempFileName downloaded of
               Some x \<Rightarrow> Fail (ChunkWrite chunkIndex x) st
             | None \<Rightarrow>
                 let disk' = append_file disk tempFileName bytes;
                     downloaded' = downloaded + int (length bytes)
                 in if chunkIndex < 0 \<or> int (length (ChunkProgress d)) \<le> chunkIndex
                    then Crash
                    else
                      let d' = d\<lparr>ChunkProgress :=
                                   (ChunkProgress d)[nat chunkIndex :=
                                      chunk_percent downloaded' actual]\<rparr>
                      in if rerr = Some EOF then Break (d', disk', downloaded')
                         else Continue (d', disk', downloaded')))))"

text \<open>
  The loop \<^verbatim>\<open>downloadLoop\<close> (manager.go:241-280) with no pause request pending, so
  that every \<^verbatim>\<open>select\<close> takes its \<^verbatim>\<open>default:\<close> branch. The result is the error
  returned from inside the loop, if any, and the state.
\<close>

fun downloadLoop ::
  "env \<Rightarrow> string \<Rightarrow> int \<Rightarrow> int \<Rightarrow> read_result list \<Rightarrow> loop_state
     \<Rightarrow> (err option \<times> loop_state) outcome" where
  "downloadLoop e tempFileName chunkIndex actual [] st = Blocked"
| "downloadLoop e tempFileName chunkIndex actual (r # body) st =
     (case chunk_iteration e tempFileName chunkIndex actual r st of
        Continue st' \<Rightarrow> downloadLoop e tempFileName chunkIndex actual body st'
      | Break st' \<Rightarrow> Return (None, st')
      | Fail x st' \<Rightarrow> Return (Some x, st')
      | Crash \<Rightarrow> Panic ''index out of range'')"

text \<open>
  \<^verbatim>\<open>downloadChunk\<close> up to the loop (manager.go:200-239): ranges, request, status check,
  temporary file. It gives the error it returns early, or the file name, the expected
  size and the response body, and the disk with the file created.
\<close>

definition d_endByte :: "Download \<Rightarrow> int \<Rightarrow> int \<Rightarrow> int" where
  "d_endByte d chunkIndex chunkSize = endByte (TotalSize d) (Chunks d) chunkIndex chunkSize"

definition d_actualChunkSize :: "Download \<Rightarrow> int \<Rightarrow> int \<Rightarrow> int" where
  "d_actualChunkSize d chunkIndex chunkSize =
     actualChunkSize (TotalSize d) (Chunks d) chunkIndex chunkSize"

definition openChunk ::
  "env \<Rightarrow> Download \<Rightarrow> fs \<Rightarrow> int \<Rightarrow> int
     \<Rightarrow> (err + string \<times> int \<times> read_result list) \<times> fs" where
  "openChunk e d disk chunkIndex chunkSize =
     (case http_NewRequest e (URL d) of
        Some x \<Rightarrow> (Inl (ChunkRequest chunkIndex x), disk)
      | None \<Rightarrow>
          (case client_Do e (URL d)
                  (Some (range_header (startByte chunkIndex chunkSize)
                                      (d_endByte d chunkIndex chunkSize))) of
             Inl x \<Rightarrow> (Inl (ChunkDo chunkIndex x), disk)
           | Inr resp \<Rightarrow>
               if StatusCode resp \<noteq> 206
               then (Inl (ChunkStatus chunkIndex (StatusCode resp)), disk)
               else
                 let tempFileName = chunkFileName (ID d) chunkIndex
                 in (case os_Create e tempFileName of
                       Some x \<Rightarrow> (Inl (ChunkTempFile chunkIndex x), disk)
                     | None \<Rightarrow>
                         (Inr (tempFileName, d_actualChunkSize d chunkIndex chunkSize,
                               Body resp),
                          disk(tempFileName \<mapsto> [])))))"

text \<open>The check after the loop (manager.go:283-285).\<close>

definition verifyChunk :: "int \<Rightarrow> int \<Rightarrow> int \<Rightarrow> err option" where
  "verifyChunk chunkIndex actual downloaded =
     (if downloaded \<noteq> actual then Some (ChunkIncomplete chunkIndex actual downloaded)
      else None)"

definition downloadChunk ::
  "env \<Rightarrow> Download \<Rightarrow> fs \<Rightarrow> int \<Rightarrow> int \<Rightarrow> (err option \<times> Download \<times> fs) outcome" where
  "downloadChunk e d disk chunkIndex chunkSize =
     (case openChunk e d disk chunkIndex chunkSize of
        (Inl x, disk') \<Rightarrow> Return (Some x, d, disk')
      | (Inr (tempFileName, actual, body), disk') \<Rightarrow>
          (case downloadLoop e tempFileName chunkIndex actual body (d, disk', 0) of
             Blocked \<Rightarrow> Blocked
           | Panic s \<Rightarrow> Panic s
           | Return (Some x, d', disk'', downloaded) \<Rightarrow> Return (Some x, d', disk'')
           | Return (None, d', disk'', downloaded) \<Rightarrow>
               Return (verifyChunk chunkIndex actual downloaded, d', disk'')))"

section \<open>The controller\<close>

text \<open>
  The workers of \<^verbatim>\<open>startDownload\<close> (manager.go:143-161) run concurrently, each on its
  own temporary file and its own slot of \<^verbatim>\<open>ChunkProgress\<close>. The model runs them one
  after the other in index order and collects the errors they send on
  \<^verbatim>\<open>errorChan\<close>; a worker that never returns keeps \<^verbatim>\<open>wg.Wait()\<close> from returning.
\<close>

fun run_workers ::
  "env \<Rightarrow> int \<Rightarrow> int list \<Rightarrow> Download \<Rightarrow> fs \<Rightarrow> (err list \<times> Download \<times> fs) outcome" where
  "run_workers e chunkSize [] d disk = Return ([], d, disk)"
| "run_workers e chunkSize (i # rest) d disk =
     (case downloadChunk e d disk i chunkSize of
        Blocked \<Rightarrow> Blocked
      | Panic s \<Rightarrow> Panic s
      | Return (r, d', disk') \<Rightarrow>
          (case run_workers e chunkSize rest d' disk' of
             Blocked \<Rightarrow> Blocked
           | Panic s \<Rightarrow> Panic s
           | Return (errs, d'', disk'') \<Rightarrow>
               Return ((case r of None \<Rightarrow> [] | Some x \<Rightarrow> [ChunkFailed i x]) @ errs,
                       d'', disk'')))"

text \<open>
  \<^verbatim>\<open>mergeChunks\<close> (manager.go:427-474). The loop copies chunk file \<open>i\<close> to the output and
  removes it at once; the state is the disk and \<^verbatim>\<open>totalMerged\<close>.
\<close>

fun merge_loop ::
  "env \<Rightarrow> Download \<Rightarrow> int list \<Rightarrow> fs \<Rightarrow> int \<Rightarrow> err option \<times> fs \<times> int" where
  "merge_loop e d [] disk totalMerged = (None, disk, totalMerged)"
| "merge_loop e d (i # rest) disk totalMerged =
     (let chunkFile = chunkFileName (ID d) i
      in (case disk chunkFile of
            None \<Rightarrow> (Some (MergeOpen i (EnvErr ''no such file or directory'')), disk,
                     totalMerged)
          | Some content \<Rightarrow>
              (case io_Copy e chunkFile of
                 Some (copied, x) \<Rightarrow>
                   (Some (MergeCopy i x),
                    append_file disk (OutputPath d) (take copied content), totalMerged)
               | None \<Rightarrow>
                   merge_loop e d rest
                     ((append_file disk (OutputPath d) content)(chunkFile := None))
                     (totalMerged + int (length content)))))"

definition mergeChunks :: "env \<Rightarrow> Download \<Rightarrow> fs \<Rightarrow> err option \<times> fs" where
  "mergeChunks e d disk =
     (case os_Create e (OutputPath d) of
        Some x \<Rightarrow> (Some (MergeCreate x), disk)
      | None \<Rightarrow>
          (case merge_loop e d (map int [0 ..< nat (Chunks d)])
                  (disk(OutputPath d \<mapsto> [])) 0 of
             (Some x, disk', totalMerged) \<Rightarrow> (Some x, disk')
           | (None, disk', totalMerged) \<Rightarrow>
               if totalMerged \<noteq> TotalSize d
               then (Some (MergeMismatch (TotalSize d) totalMerged), disk')
               else (None, disk')))"

text \<open>
  One tick of the progress goroutine of \<^verbatim>\<open>downloadSingleFile\<close> (manager.go:354-364).
  It returns for good once the status is not downloading; while it runs it copies the
  loop's counter into \<^verbatim>\<open>Progress\<close> and \<^verbatim>\<open>Downloaded\<close>, but only for a positive
  total size. The percentage is an exact real, as everywhere.
\<close>

definition single_tick :: "Download \<Rightarrow> int \<Rightarrow> Download" where
  "single_tick d downloaded =
     (if Status d \<noteq> StatusDownloading then d
      else if TotalSize d > 0
      then d\<lparr>Progress := real_of_int downloaded / real_of_int (TotalSize d) * 100,
             Downloaded := downloaded\<rparr>
      else d)"

text \<open>
  The loop of \<^verbatim>\<open>downloadSingleFile\<close> (manager.go:374-413), again with every
  \<^verbatim>\<open>select\<close> taking its \<^verbatim>\<open>default:\<close> branch. The state is the shared
  \<^verbatim>\<open>Download\<close>, the disk and the counter \<^verbatim>\<open>downloaded\<close>; \<open>pass\<close> counts the passes.
  The counter changes at the end of a pass only, so a tick during a pass reads what a
  tick before that pass reads, and several ticks write what one writes: the ticker is
  asked once per pass. The result is the error that ends the function, if any, and the
  state.
\<close>

fun singleLoop ::
  "env \<Rightarrow> string \<Rightarrow> read_result list \<Rightarrow> nat \<Rightarrow> Download \<Rightarrow> fs \<Rightarrow> int
     \<Rightarrow> (err option \<times> Download \<times> fs \<times> int) outcome" where
  "singleLoop e path [] pass d0 disk downloaded = Blocked"
| "singleLoop e path ((bytes, rerr) # body) pass d0 disk downloaded =
     (let d = (if ticker e pass then single_tick d0 downloaded else d0)
      in (case rerr of
            Some (ReadFailure x) \<Rightarrow> Return (Some x, d, disk, downloaded)
          | _ \<Rightarrow>
            if length bytes = 0 then Return (None, d, disk, downloaded)
            else
              (case file_Write e path downloaded of
                 Some x \<Rightarrow> Return (Some x, d, disk, downloaded)
               | None \<Rightarrow>
                   if rerr = Some EOF
                   then Return (None, d, append_file disk path bytes,
                                downloaded + int (length bytes))
                   else singleLoop e path body (Suc pass) d (append_file disk path bytes)
                          (downloaded + int (length bytes)))))"

text \<open>
  \<^verbatim>\<open>downloadSingleFile\<close> (manager.go:299-425). An error exit keeps what the last tick
  wrote; the normal exit overwrites it (lines 415-417).
\<close>

definition fail_with :: "Download \<Rightarrow> err \<Rightarrow> Download" where
  "fail_with d x = d\<lparr>Status := StatusError, Error := Some x\<rparr>"

definition downloadSingleFile :: "env \<Rightarrow> Download \<Rightarrow> fs \<Rightarrow> (Download \<times> fs) outcome" where
  "downloadSingleFile e d disk =
     (case http_NewRequest e (URL d) of
        Some x \<Rightarrow> Return (fail_with d x, disk)
      | None \<Rightarrow>
          (case client_Do e (URL d) None of
             Inl x \<Rightarrow> Return (fail_with d x, disk)
           | Inr resp \<Rightarrow>
               (case os_Create e (OutputPath d) of
                  Some x \<Rightarrow> Return (fail_with d x, disk)
                | None \<Rightarrow>
                    (case singleLoop e (OutputPath d) (Body resp) 0 d
                            (disk(OutputPath d \<mapsto> [])) 0 of
                       Blocked \<Rightarrow> Blocked
                     | Panic s \<Rightarrow> Panic s
                     | Return (Some x, d', disk', downloaded) \<Rightarrow>
                         Return (fail_with d' x, disk')
                     | Return (None, d', disk', downloaded) \<Rightarrow>
                         Return (d'\<lparr>Status := StatusCompleted, Progress := 100,
                                    Downloaded := downloaded\<rparr>, disk')))))"

text \<open>
  \<^verbatim>\<open>startDownload\<close> after \<^verbatim>\<open>wg.Wait()\<close> (manager.go:157-196): the collected chunk
  errors decide between the error state and the merge. The merge runs only while the
  status is still downloading.
\<close>

definition finishDownload :: "env \<Rightarrow> err list \<Rightarrow> Download \<Rightarrow> fs \<Rightarrow> Download \<times> fs" where
  "finishDownload e chunkErrors d disk =
     (if length chunkErrors > 0
      then (fail_with d (SomeChunksFailed chunkErrors), disk)
      else if Status d = StatusDownloading
      then (case mergeChunks e d disk of
              (Some x, disk') \<Rightarrow> (fail_with d x, disk')
            | (None, disk') \<Rightarrow> (d\<lparr>Status := StatusCompleted, Progress := 100\<rparr>, disk'))
      else (d, disk))"

text \<open>
  \<^verbatim>\<open>startDownload\<close> (manager.go:99-197). The division by \<^verbatim>\<open>int64(d.Chunks)\<close> panics
  when \<open>Chunks\<close> is zero, \<^verbatim>\<open>make(chan error, d.Chunks)\<close> when it is negative or
  beyond the allocation limit. The
  progress goroutine \<^verbatim>\<open>updateProgress\<close> is modelled by its own tick below.
\<close>

definition startDownload :: "env \<Rightarrow> Download \<Rightarrow> fs \<Rightarrow> (Download \<times> fs) outcome" where
  "startDownload e d0 disk =
     (let d = d0\<lparr>Status := StatusDownloading\<rparr>
      in (case http_Head e (URL d) of
            Inl x \<Rightarrow> Return (fail_with d x, disk)
          | Inr resp \<Rightarrow>
              let d = d\<lparr>TotalSize := ContentLength resp\<rparr>;
                  supportsRanges = (AcceptRanges resp = ''bytes'')
              in if \<not> supportsRanges \<or> Chunks d = 1 then downloadSingleFile e d disk
                 else if Chunks d = 0 then Panic ''integer divide by zero''
                 else if Chunks d < 0 \<or> maxAlloc - 96 < 16 * Chunks d
                 then Panic ''makechan: size out of range''
                 else
                   let chunkSize = chunkSize_of (TotalSize d) (Chunks d)
                   in (case run_workers e chunkSize (map int [0 ..< nat (Chunks d)]) d disk of
                         Blocked \<Rightarrow> Blocked
                       | Panic s \<Rightarrow> Panic s
                       | Return (chunkErrors, d', disk') \<Rightarrow>
                           Return (finishDownload e chunkErrors d' disk'))))"

section \<open>Registry operations\<close>

text \<open>\<^verbatim>\<open>GetDownload\<close> (manager.go:553-562).\<close>

definition GetDownload :: "Manager \<Rightarrow> string \<Rightarrow> err + Download" where
  "GetDownload m ident =
     (case m ident of None \<Rightarrow> Inl NotFound | Some download \<Rightarrow> Inr download)"

text \<open>
  \<^verbatim>\<open>DeleteDownload\<close> (manager.go:608-631). The cleanup loop removes
  \<^verbatim>\<open>chunk_<id>_<i>.tmp\<close> for every \<open>i\<close> below \<open>Chunks\<close>. The result is the error
  returned, the \<^verbatim>\<open>Download\<close> object as the call leaves it (the controller still holds
  it), the registry and the disk.
\<close>

fun remove_chunks :: "string \<Rightarrow> int list \<Rightarrow> fs \<Rightarrow> fs" where
  "remove_chunks ident [] disk = disk"
| "remove_chunks ident (i # rest) disk =
     remove_chunks ident rest (disk(chunkFileName ident i := None))"

definition DeleteDownload ::
  "Manager \<Rightarrow> fs \<Rightarrow> string \<Rightarrow> err option \<times> Download option \<times> Manager \<times> fs" where
  "DeleteDownload m disk ident =
     (case m ident of
        None \<Rightarrow> (Some NotFound, None, m, disk)
      | Some download \<Rightarrow>
          if Status download = StatusDownloading
          then (None, Some (download\<lparr>Status := StatusError, Error := Some Cancelled\<rparr>),
                m(ident := None),
                remove_chunks (ID download) (map int [0 ..< nat (Chunks download)]) disk)
          else (None, Some download, m(ident := None), disk))"

section \<open>Progress tick\<close>

text \<open>
  One tick of \<^verbatim>\<open>updateProgress\<close> (manager.go:568-598): \<open>None\<close> when the goroutine
  returns because the status is no longer downloading. The \<^verbatim>\<open>float64\<close> values are
  exact reals: the model agrees with the code where every intermediate value is a
  binary fraction that \<^verbatim>\<open>float64\<close> holds exactly (as for percentages 0, 25, 50, 75
  and 100). Elsewhere the code rounds after each operation and can write a
  \<^verbatim>\<open>Downloaded\<close> that is one less than the model's; the theorems evaluate the tick
  only where the values are exact. \<^verbatim>\<open>int64(x)\<close> of a
  \<^verbatim>\<open>float64\<close> truncates towards zero; for a value beyond the range of \<^verbatim>\<open>int64\<close>
  Go leaves the result to the platform, and the model keeps the truncated value. The
  speed and the remaining time come from the wall clock and are left out.
\<close>

definition trunc_int64 :: "real \<Rightarrow> int" where
  "trunc_int64 x = (if 0 \<le> x then \<lfloor>x\<rfloor> else \<lceil>x\<rceil>)"

definition updateProgress_tick :: "Download \<Rightarrow> Download option" where
  "updateProgress_tick d =
     (if Status d \<noteq> StatusDownloading then None
      else
        let totalProgress = foldl (+) 0 (ChunkProgress d);
            progress = totalProgress / real_of_int (Chunks d)
        in Some (d\<lparr>Progress := progress,
                   Downloaded := trunc_int64 (real_of_int (TotalSize d) * progress / 100)\<rparr>))"

section \<open>Pause and resume\<close>

text \<open>
  The workers of one download share the unbuffered channel \<^verbatim>\<open>d.pauseChan\<close>. A worker
  is at the \<^verbatim>\<open>select\<close> at the head of its loop, parked at the second receive
  \<^verbatim>\<open><-d.pauseChan\<close> (manager.go:246), or has returned. \<open>sender\<close> is the value a
  goroutine blocked in \<^verbatim>\<open>d.pauseChan <- v\<close> offers; the send, and with it
  \<^verbatim>\<open>PauseDownload\<close> or \<^verbatim>\<open>ResumeDownload\<close>, returns when one worker receives it.
\<close>

datatype pc = AtSelect | Parked | Finished "err option"

record worker =
  w_index :: int
  w_file :: string
  w_actual :: int
  w_body :: "read_result list"
  w_downloaded :: int
  w_pc :: pc

record system =
  download :: Download
  disk :: fs
  workers :: "worker list"
  sender :: "bool option"

text \<open>A worker as \<^verbatim>\<open>downloadChunk\<close> reaches its loop, or returns before it.\<close>

definition start_worker :: "env \<Rightarrow> Download \<Rightarrow> fs \<Rightarrow> int \<Rightarrow> int \<Rightarrow> worker \<times> fs" where
  "start_worker e d dsk chunkIndex chunkSize =
     (case openChunk e d dsk chunkIndex chunkSize of
        (Inl x, dsk') \<Rightarrow>
          (\<lparr>w_index = chunkIndex, w_file = [], w_actual = 0, w_body = [],
            w_downloaded = 0, w_pc = Finished (Some x)\<rparr>, dsk')
      | (Inr (tempFileName, actual, body), dsk') \<Rightarrow>
          (\<lparr>w_index = chunkIndex, w_file = tempFileName, w_actual = actual, w_body = body,
            w_downloaded = 0, w_pc = AtSelect\<rparr>, dsk'))"

fun start_workers :: "env \<Rightarrow> Download \<Rightarrow> int \<Rightarrow> int list \<Rightarrow> fs \<Rightarrow> worker list \<times> fs" where
  "start_workers e d chunkSize [] dsk = ([], dsk)"
| "start_workers e d chunkSize (i # rest) dsk =
     (case start_worker e d dsk i chunkSize of
        (w, dsk') \<Rightarrow>
          (case start_workers e d chunkSize rest dsk' of (ws, dsk'') \<Rightarrow> (w # ws, dsk'')))"

text \<open>
  \<^verbatim>\<open>PauseDownload\<close> and \<^verbatim>\<open>ResumeDownload\<close> (manager.go:485-487, 507-509) on the
  download of the system, up to the point where the send blocks. When the status does
  not match they return at once and change nothing.
\<close>

definition pause_call :: "system \<Rightarrow> system" where
  "pause_call s =
     (if Status (download s) = StatusDownloading
      then s\<lparr>download := (download s)\<lparr>Status := StatusPaused\<rparr>, sender := Some True\<rparr>
      else s)"

definition resume_call :: "system \<Rightarrow> system" where
  "resume_call s =
     (if Status (download s) = StatusPaused
      then s\<lparr>download := (download s)\<lparr>Status := StatusDownloading\<rparr>, sender := Some False\<rparr>
      else s)"

text \<open>
  One step of worker \<open>k\<close>. At the \<^verbatim>\<open>select\<close> the receive is taken when a sender is
  waiting, and parks the worker; otherwise the \<^verbatim>\<open>default:\<close> branch runs one
  \<open>chunk_iteration\<close>. A parked worker moves only by receiving the next value. \<open>None\<close>:
  the worker cannot move (it is blocked or has returned).
\<close>

definition worker_step :: "env \<Rightarrow> nat \<Rightarrow> system \<Rightarrow> system option" where
  "worker_step e k s =
     (if length (workers s) \<le> k then None
      else
        let w = workers s ! k
        in (case w_pc w of
              Finished r \<Rightarrow> None
            | Parked \<Rightarrow>
                (case sender s of
                   None \<Rightarrow> None
                 | Some v \<Rightarrow>
                     Some (s\<lparr>workers := (workers s)[k := w\<lparr>w_pc := AtSelect\<rparr>],
                             sender := None\<rparr>))
            | AtSelect \<Rightarrow>
                (case sender s of
                   Some v \<Rightarrow>
                     Some (s\<lparr>workers := (workers s)[k := w\<lparr>w_pc := Parked\<rparr>],
                             sender := None\<rparr>)
                 | None \<Rightarrow>
                     (case w_body w of
                        [] \<Rightarrow> None
                      | r # body \<Rightarrow>
                          (case chunk_iteration e (w_file w) (w_index w) (w_actual w) r
                                  (download s, disk s, w_downloaded w) of
                             Continue (d', dsk', n) \<Rightarrow>
                               Some (s\<lparr>download := d', disk := dsk',
                                       workers := (workers s)[k := w\<lparr>w_body := body,
                                                    w_downloaded := n\<rparr>]\<rparr>)
                           | Break (d', dsk', n) \<Rightarrow>
                               Some (s\<lparr>download := d', disk := dsk',
                                       workers := (workers s)[k := w\<lparr>w_body := body,
                                         w_downloaded := n,
                                         w_pc := Finished (verifyChunk (w_index w) (w_actual w) n)\<rparr>]\<rparr>)
                           | Fail x (d', dsk', n) \<Rightarrow>
                               Some (s\<lparr>download := d', disk := dsk',
                                       workers := (workers s)[k := w\<lparr>w_body := body,
                                         w_downloaded := n, w_pc := Finished (Some x)\<rparr>]\<rparr>)
                           | Crash \<Rightarrow> None)))))"

text \<open>
  A schedule: which goroutine moves next. A pause or resume call is taken up only when
  no earlier send is still waiting for its receiver (one blocked sender is modelled).
  \<open>Tick\<close> is one tick of \<^verbatim>\<open>updateProgress\<close>.
\<close>

datatype event = PauseCall | ResumeCall | WorkerStep nat | Tick

definition step :: "env \<Rightarrow> event \<Rightarrow> system \<Rightarrow> system option" where
  "step e ev s =
     (case ev of
        PauseCall \<Rightarrow> (if sender s = None then Some (pause_call s) else None)
      | ResumeCall \<Rightarrow> (if sender s = None then Some (resume_call s) else None)
      | WorkerStep k \<Rightarrow> worker_step e k s
      | Tick \<Rightarrow>
          (case updateProgress_tick (download s) of
             None \<Rightarrow> None
           | Some d' \<Rightarrow> Some (s\<lparr>download := d'\<rparr>)))"

fun run_schedule :: "env \<Rightarrow> event list \<Rightarrow> system \<Rightarrow> system option" where
  "run_schedule e [] s = Some s"
| "run_schedule e (ev # evs) s =
     (case step e ev s of None \<Rightarrow> None | Some s' \<Rightarrow> run_schedule e evs s')"

section \<open>Example runs\<close>

text \<open>
  Concrete downloads and origins on which the theorems below are evaluated.
  \<open>origin head get\<close> is an environment without local faults: the probe answers
  \<open>head\<close>, a GET answers by its \<^verbatim>\<open>Range\<close> header, and the ticker of the single-file
  path never fires before the loop ends.
\<close>

definition origin :: "response \<Rightarrow> (string option \<Rightarrow> err + response) \<Rightarrow> env" where
  "origin head get =
     \<lparr>http_Head = (\<lambda>u. Inr head), http_NewRequest = (\<lambda>u. None),
      client_Do = (\<lambda>u r. get r), os_Create = (\<lambda>p. None),
      file_Write = (\<lambda>p off. None), io_Copy = (\<lambda>p. None), ticker = (\<lambda>k. False)\<rparr>"

definition probe :: "int \<Rightarrow> string \<Rightarrow> response" where
  "probe len ranges =
     \<lparr>StatusCode = 200, ContentLength = len, AcceptRanges = ranges, Body = []\<rparr>"

definition reply :: "int \<Rightarrow> read_result list \<Rightarrow> err + response" where
  "reply code body =
     Inr \<lparr>StatusCode = code, ContentLength = - 1, AcceptRanges = [], Body = body\<rparr>"

text \<open>
  The \<^verbatim>\<open>Download\<close> that \<open>AddDownload\<close> registers for the file \<^verbatim>\<open>f.bin\<close> with \<open>n\<close>
  chunks when the clock reads 7, and the same download once the probe has reported
  10 bytes.
\<close>

definition created :: "int \<Rightarrow> Download" where
  "created n =
     \<lparr>ID = ''7'', URL = ''http://origin/f.bin'', Filename = ''f.bin'',
      OutputPath = ''downloads/f.bin'', Status = StatusPending, Progress = 0,
      TotalSize = 0, Downloaded = 0, Chunks = n,
      ChunkProgress = replicate (nat n) 0, Error = None,
      ConnectTimeout = ''30s'', ReadTimeout = ''10m''\<rparr>"

definition probed :: "int \<Rightarrow> Download" where
  "probed n = (created n)\<lparr>Status := StatusDownloading, TotalSize := 10\<rparr>"

text \<open>Ten bytes in two ranges, both served in full.\<close>

definition get_halves :: "string option \<Rightarrow> err + response" where
  "get_halves r =
     (if r = Some ''bytes=0-4'' then reply 206 [(''hello'', None), ([], Some EOF)]
      else if r = Some ''bytes=5-9'' then reply 206 [(''wor'', None), (''ld'', Some EOF)]
      else Inl (EnvErr ''unexpected request''))"

text \<open>The first range is served in full; the second is answered with status 200.\<close>

definition get_second_refused :: "string option \<Rightarrow> err + response" where
  "get_second_refused r =
     (if r = Some ''bytes=0-4'' then reply 206 [(''hello'', Some EOF)]
      else reply 200 [(''helloworld'', Some EOF)])"

text \<open>Three bytes arrive for the first range, then the origin sends nothing more.\<close>

definition get_stalled :: "string option \<Rightarrow> err + response" where
  "get_stalled r = reply 206 [(''hel'', None)]"

text \<open>Ten bytes in four ranges of 2, 2, 2 and 4 bytes.\<close>

definition get_quarters :: "string option \<Rightarrow> err + response" where
  "get_quarters r =
     (if r = Some ''bytes=0-1'' then reply 206 [(''he'', Some EOF)]
      else if r = Some ''bytes=2-3'' then reply 206 [(''ll'', Some EOF)]
      else if r = Some ''bytes=4-5'' then reply 206 [(''ow'', Some EOF)]
      else if r = Some ''bytes=6-9'' then reply 206 [(''orld'', Some EOF)]
      else Inl (EnvErr ''unexpected request''))"

text \<open>An unranged GET that delivers a body of the given bytes and ends.\<close>

definition get_whole :: "string \<Rightarrow> string option \<Rightarrow> err + response" where
  "get_whole bytes r = reply 200 [(bytes, Some EOF)]"

text \<open>An origin that answers every GET with status 206 and a body of the given bytes.\<close>

definition get_ranged :: "string \<Rightarrow> string option \<Rightarrow> err + response" where
  "get_ranged bytes r = reply 206 [(bytes, Some EOF)]"

text \<open>A disk on which the two chunk files hold eight bytes in all.\<close>

definition disk_short :: fs where
  "disk_short = [''chunk_7_0.tmp'' \<mapsto> ''hello'', ''chunk_7_1.tmp'' \<mapsto> ''wor'']"

text \<open>
  The system of a download with its workers at the head of their loops, as
  \<open>startDownload\<close> has started them.
\<close>

definition running :: "env \<Rightarrow> Download \<Rightarrow> system" where
  "running e d =
     (case start_workers e d (chunkSize_of (TotalSize d) (Chunks d))
             (map int [0 ..< nat (Chunks d)]) Map.empty of
        (ws, dsk) \<Rightarrow> \<lparr>download = d, disk = dsk, workers = ws, sender = None\<rparr>)"

text \<open>The byte counters of the workers, and their sum.\<close>

definition counters :: "system \<Rightarrow> int list" where
  "counters s = map w_downloaded (workers s)"

section \<open>Notions used in the statements\<close>







text \<open>
  \<open>with_timeouts ct rt d\<close> is the download \<open>d\<close> with other timeout settings, and
  \<open>retimed ct rt r\<close> an outcome of \<open>downloadChunk\<close> with these settings in the returned
  \<^verbatim>\<open>Download\<close>.
\<close>

definition with_timeouts :: "string \<Rightarrow> string \<Rightarrow> Download \<Rightarrow> Download" where
  "with_timeouts ct rt d = d\<lparr>ConnectTimeout := ct, ReadTimeout := rt\<rparr>"

definition retimed ::
  "string \<Rightarrow> string \<Rightarrow> (err option \<times> Download \<times> fs) outcome
     \<Rightarrow> (err option \<times> Download \<times> fs) outcome" where
  "retimed ct rt r =
     (case r of Return (x, d, k) \<Rightarrow> Return (x, with_timeouts ct rt d, k)
              | Panic s \<Rightarrow> Panic s
              | Blocked \<Rightarrow> Blocked)"

section \<open>Evaluation on concrete runs\<close>

text \<open>The index lists and initial percentages of the example runs, and the equations the
  simplifier unfolds to run the model on them.\<close>

lemma indices_2: "map int [0 ..< 2] = [0, 1]"
  by (simp add: upt_rec)

lemma indices_4: "map int [0 ..< 4] = [0, 1, 2, 3]"
  by (simp add: upt_rec)

lemma zeros_2: "replicate 2 (0::real) = [0, 0]"
  by (simp add: numeral_2_eq_2)

lemma zeros_4: "replicate 4 (0::real) = [0, 0, 0, 0]"
  by (simp add: eval_nat_numeral)

lemmas eval_defs =
  AddDownload_def maxAlloc_def generateID_def show_int_def digit_char_def startDownload_def
  origin_def probe_def reply_def created_def probed_def get_halves_def
  get_second_refused_def get_stalled_def get_quarters_def get_whole_def get_ranged_def disk_short_def
  chunkSize_of_def go_quot_def int64_def downloadChunk_def openChunk_def startByte_def
  endByte_def d_endByte_def d_actualChunkSize_def actualChunkSize_def range_header_def
  chunkFileName_def chunk_iteration_def append_file_def verifyChunk_def finishDownload_def
  mergeChunks_def fail_with_def chunk_percent_def downloadSingleFile_def single_tick_def Let_def
  running_def start_worker_def counters_def step_def worker_step_def pause_call_def
  resume_call_def updateProgress_tick_def trunc_int64_def DeleteDownload_def
  GetDownload_def createDownload_def indices_2 indices_4 zeros_2 zeros_4

section \<open>Properties of the chunk ranges\<close>

lemma int64_id: "- (2 ^ 63) \<le> x \<Longrightarrow> x < 2 ^ 63 \<Longrightarrow> int64 x = x"
  by (simp add: int64_def)

lemma div_le_self_int: "0 \<le> (a::int) \<Longrightarrow> 0 < b \<Longrightarrow> a div b \<le> a"
  by (metis div_0 int_div_le_self leI nle_le)

lemma go_quot_nonneg:
  assumes "0 \<le> a" "0 < b" "a < 2 ^ 63"
  shows "go_quot a b = a div b"
proof -
  have q: "sgn a * sgn b * (\<bar>a\<bar> div \<bar>b\<bar>) = a div b"
    using assms by (cases "a = 0") (simp_all add: sgn_if)
  have "0 \<le> a div b" using assms by (simp add: pos_imp_zdiv_nonneg_iff)
  moreover have "a div b \<le> a" using assms by (simp add: div_le_self_int)
  ultimately show ?thesis
    unfolding go_quot_def q using assms by (intro int64_id) auto
qed

lemma times_div_le: "0 < (n::int) \<Longrightarrow> n * (t div n) \<le> t"
proof -
  assume n: "0 < n"
  have "n * (t div n) = t - t mod n" by (simp add: minus_mod_eq_mult_div)
  moreover have "0 \<le> t mod n" using n by simp
  ultimately show ?thesis by simp
qed

lemma mult_base_le:
  fixes i n t :: int
  assumes "0 \<le> i" "i \<le> n" "0 < n" "0 \<le> t"
  shows "i * (t div n) \<le> t"
proof -
  have "0 \<le> t div n" using assms by (simp add: pos_imp_zdiv_nonneg_iff)
  then have "i * (t div n) \<le> n * (t div n)"
    using assms by (intro mult_right_mono) auto
  also have "\<dots> \<le> t"
    using assms by (simp add: times_div_le)
  finally show ?thesis .
qed

lemma chunkSize_of_eq:
  "1 \<le> t \<Longrightarrow> t < 2 ^ 63 \<Longrightarrow> 1 \<le> n \<Longrightarrow> chunkSize_of t n = t div n"
  by (simp add: chunkSize_of_def go_quot_nonneg)

lemma startByte_eq:
  assumes "1 \<le> t" "t < 2 ^ 63" "1 \<le> n" "0 \<le> i" "i < n"
  shows "startByte i (t div n) = i * (t div n)"
proof -
  have "0 \<le> t div n" using assms by (simp add: pos_imp_zdiv_nonneg_iff)
  then have "0 \<le> i * (t div n)" using assms by simp
  moreover have "i * (t div n) \<le> t" using assms by (intro mult_base_le) auto
  ultimately show ?thesis
    unfolding startByte_def using assms by (intro int64_id) auto
qed

lemma endByte_inner:
  assumes "1 \<le> t" "t < 2 ^ 63" "1 \<le> n" "n < 2 ^ 63" "0 \<le> i" "i < n - 1"
  shows "endByte t n i (t div n) = (i + 1) * (t div n) - 1"
proof -
  have b: "0 \<le> t div n" using assms by (simp add: pos_imp_zdiv_nonneg_iff)
  have last: "int64 (n - 1) = n - 1" using assms by (intro int64_id) auto
  have s: "startByte i (t div n) = i * (t div n)" using assms by (intro startByte_eq) auto
  have sum: "i * (t div n) + t div n = (i + 1) * (t div n)" by (simp add: algebra_simps)
  have lo: "0 \<le> (i + 1) * (t div n)" using b assms by simp
  have hi: "(i + 1) * (t div n) \<le> t" using assms by (intro mult_base_le) auto
  have e1: "int64 ((i + 1) * (t div n)) = (i + 1) * (t div n)"
    using lo hi assms by (intro int64_id) auto
  have e2: "int64 ((i + 1) * (t div n) - 1) = (i + 1) * (t div n) - 1"
    using lo hi assms by (intro int64_id) auto
  show ?thesis
    unfolding endByte_def last s sum e1 e2 using assms by simp
qed

lemma endByte_last:
  assumes "1 \<le> t" "t < 2 ^ 63" "1 \<le> n" "n < 2 ^ 63"
  shows "endByte t n (n - 1) (t div n) = t - 1"
proof -
  have last: "int64 (n - 1) = n - 1" using assms by (intro int64_id) auto
  have "int64 (t - 1) = t - 1" using assms by (intro int64_id) auto
  then show ?thesis unfolding endByte_def last by simp
qed

lemma chunk_bytes_inner:
  assumes "1 \<le> t" "t < 2 ^ 63" "1 \<le> n" "n < 2 ^ 63" "0 \<le> i" "i < n - 1"
  shows "chunk_bytes t n i = {i * (t div n) .. (i + 1) * (t div n) - 1}"
  using assms by (simp add: chunk_bytes_def chunkSize_of_eq startByte_eq endByte_inner)

lemma chunk_bytes_last:
  assumes "1 \<le> t" "t < 2 ^ 63" "1 \<le> n" "n < 2 ^ 63"
  shows "chunk_bytes t n (n - 1) = {(n - 1) * (t div n) .. t - 1}"
  using assms by (simp add: chunk_bytes_def chunkSize_of_eq startByte_eq endByte_last)

lemma chunk_bytes_subset:
  assumes "1 \<le> t" "t < 2 ^ 63" "1 \<le> n" "n < 2 ^ 63" "0 \<le> i" "i < n"
  shows "chunk_bytes t n i \<subseteq> {0 .. t - 1}"
proof (cases "i = n - 1")
  case True
  have "0 \<le> t div n" using assms by (simp add: pos_imp_zdiv_nonneg_iff)
  then have "0 \<le> (n - 1) * (t div n)" using assms by simp
  then show ?thesis using True assms by (auto simp: chunk_bytes_last)
next
  case False
  then have i: "i < n - 1" using assms by simp
  have b: "0 \<le> t div n" using assms by (simp add: pos_imp_zdiv_nonneg_iff)
  then have lo: "0 \<le> i * (t div n)" using assms by simp
  have hi: "(i + 1) * (t div n) \<le> t" using assms i by (intro mult_base_le) auto
  show ?thesis using i lo hi assms by (auto simp: chunk_bytes_inner)
qed

lemma chunk_bytes_cover:
  assumes "1 \<le> t" "t < 2 ^ 63" "1 \<le> n" "n < 2 ^ 63" "0 \<le> x" "x \<le> t - 1"
  shows "\<exists>i\<in>{0..<n}. x \<in> chunk_bytes t n i"
proof (cases "x < (n - 1) * (t div n)")
  case False
  then have "x \<in> chunk_bytes t n (n - 1)" using assms by (simp add: chunk_bytes_last)
  moreover have "n - 1 \<in> {0..<n}" using assms by simp
  ultimately show ?thesis by blast
next
  case True
  have b0: "0 \<le> t div n" using assms by (simp add: pos_imp_zdiv_nonneg_iff)
  have b: "0 < t div n"
  proof (rule ccontr)
    assume "\<not> 0 < t div n"
    then have "t div n = 0" using b0 by simp
    then show False using True assms by simp
  qed
  define i where "i = x div (t div n)"
  have i0: "0 \<le> i" using assms b by (simp add: i_def pos_imp_zdiv_nonneg_iff)
  have lo: "i * (t div n) \<le> x"
    using times_div_le [OF b, of x] by (simp add: i_def mult.commute)
  have hi: "x < (i + 1) * (t div n)"
  proof -
    have "x = (t div n) * i + x mod (t div n)" by (simp add: i_def)
    moreover have "x mod (t div n) < t div n" using b by simp
    ultimately show ?thesis by (simp add: algebra_simps)
  qed
  have "i * (t div n) < (n - 1) * (t div n)" using lo True by simp
  then have i1: "i < n - 1" using b by (simp add: mult_less_cancel_right)
  have "x \<in> chunk_bytes t n i" using assms i0 i1 lo hi by (simp add: chunk_bytes_inner)
  moreover have "i \<in> {0..<n}" using i0 i1 by simp
  ultimately show ?thesis by blast
qed

lemma chunk_bytes_disjoint:
  assumes "1 \<le> t" "t < 2 ^ 63" "1 \<le> n" "n < 2 ^ 63" "0 \<le> i" "i < j" "j < n"
  shows "chunk_bytes t n i \<inter> chunk_bytes t n j = {}"
proof -
  have b: "0 \<le> t div n" using assms by (simp add: pos_imp_zdiv_nonneg_iff)
  have i: "i < n - 1" using assms by simp
  have "(i + 1) * (t div n) \<le> j * (t div n)"
    using b assms by (intro mult_right_mono) auto
  moreover have "chunk_bytes t n i = {i * (t div n) .. (i + 1) * (t div n) - 1}"
    using assms i by (simp add: chunk_bytes_inner)
  moreover have "chunk_bytes t n j \<subseteq> {j * (t div n) ..}"
    using assms by (auto simp: chunk_bytes_def chunkSize_of_eq startByte_eq)
  ultimately show ?thesis by auto
qed


text \<open>
  Claim C1. For a total size of at least one byte and a chunk count of at least one
  (both in the range of Go's 64-bit integers), the ranges the workers compute are:
  base \<open>totalSize div n\<close>; chunk \<open>i\<close> below the last spans
  \<open>[i * base, (i + 1) * base - 1]\<close> and ends right before the start of chunk \<open>i + 1\<close>;
  the first chunk starts at byte 0; the last chunk ends at \<open>totalSize - 1\<close>; two
  different chunks share no byte; and together the chunks hold exactly the bytes
  \<open>0 .. totalSize - 1\<close>.
\<close>

theorem partition_exact:
  assumes "1 \<le> totalSize" "totalSize < 2 ^ 63" "1 \<le> n" "n < 2 ^ 63"
  shows "chunkSize_of totalSize n = totalSize div n
     \<and> (\<forall>i. 0 \<le> i \<and> i < n - 1 \<longrightarrow>
           startByte i (chunkSize_of totalSize n) = i * (totalSize div n)
         \<and> endByte totalSize n i (chunkSize_of totalSize n) = (i + 1) * (totalSize div n) - 1
         \<and> endByte totalSize n i (chunkSize_of totalSize n) + 1
             = startByte (i + 1) (chunkSize_of totalSize n))
     \<and> startByte 0 (chunkSize_of totalSize n) = 0
     \<and> startByte (n - 1) (chunkSize_of totalSize n) = (n - 1) * (totalSize div n)
     \<and> endByte totalSize n (n - 1) (chunkSize_of totalSize n) = totalSize - 1
     \<and> (\<forall>i j. 0 \<le> i \<and> i < j \<and> j < n \<longrightarrow>
           chunk_bytes totalSize n i \<inter> chunk_bytes totalSize n j = {})
     \<and> (\<Union>i\<in>{0..<n}. chunk_bytes totalSize n i) = {0 .. totalSize - 1}"
proof -
  have cs: "chunkSize_of totalSize n = totalSize div n"
    using assms by (simp add: chunkSize_of_eq)
  have inner: "\<forall>i. 0 \<le> i \<and> i < n - 1 \<longrightarrow>
           startByte i (totalSize div n) = i * (totalSize div n)
         \<and> endByte totalSize n i (totalSize div n) = (i + 1) * (totalSize div n) - 1
         \<and> endByte totalSize n i (totalSize div n) + 1 = startByte (i + 1) (totalSize div n)"
  proof (intro allI impI)
    fix i assume i: "0 \<le> i \<and> i < n - 1"
    have s: "startByte i (totalSize div n) = i * (totalSize div n)"
      using assms i by (intro startByte_eq) auto
    have e: "endByte totalSize n i (totalSize div n) = (i + 1) * (totalSize div n) - 1"
      using assms i by (intro endByte_inner) auto
    have s': "startByte (i + 1) (totalSize div n) = (i + 1) * (totalSize div n)"
      using assms i by (intro startByte_eq) auto
    show "startByte i (totalSize div n) = i * (totalSize div n)
         \<and> endByte totalSize n i (totalSize div n) = (i + 1) * (totalSize div n) - 1
         \<and> endByte totalSize n i (totalSize div n) + 1 = startByte (i + 1) (totalSize div n)"
      using s e s' by simp
  qed
  have first: "startByte 0 (totalSize div n) = 0"
    using startByte_eq [of totalSize n 0] assms by simp
  have lasts: "startByte (n - 1) (totalSize div n) = (n - 1) * (totalSize div n)"
    using assms by (intro startByte_eq) auto
  have laste: "endByte totalSize n (n - 1) (totalSize div n) = totalSize - 1"
    using assms by (rule endByte_last)
  have disj: "\<forall>i j. 0 \<le> i \<and> i < j \<and> j < n \<longrightarrow>
           chunk_bytes totalSize n i \<inter> chunk_bytes totalSize n j = {}"
  proof (intro allI impI)
    fix i j assume "0 \<le> i \<and> i < j \<and> j < n"
    then show "chunk_bytes totalSize n i \<inter> chunk_bytes totalSize n j = {}"
      using assms by (intro chunk_bytes_disjoint) auto
  qed
  have cover: "(\<Union>i\<in>{0..<n}. chunk_bytes totalSize n i) = {0 .. totalSize - 1}"
  proof (rule equalityI)
    show "(\<Union>i\<in>{0..<n}. chunk_bytes totalSize n i) \<subseteq> {0 .. totalSize - 1}"
    proof
      fix x assume "x \<in> (\<Union>i\<in>{0..<n}. chunk_bytes totalSize n i)"
      then obtain i where "0 \<le> i" "i < n" "x \<in> chunk_bytes totalSize n i" by auto
      then show "x \<in> {0 .. totalSize - 1}"
        using chunk_bytes_subset [OF assms, of i] by blast
    qed
    show "{0 .. totalSize - 1} \<subseteq> (\<Union>i\<in>{0..<n}. chunk_bytes totalSize n i)"
      using chunk_bytes_cover [OF assms] by auto
  qed
  show ?thesis
    unfolding cs using inner first lasts laste disj cover by blast
qed

text \<open>The partition of 1000003 bytes into 4 chunks: three of 250000 bytes, the last of 250003.\<close>

theorem partition_exact_witness:
  "chunkSize_of 1000003 4 = 250000
   \<and> startByte 0 (chunkSize_of 1000003 4) = 0
   \<and> endByte 1000003 4 2 (chunkSize_of 1000003 4) = 749999
   \<and> startByte 3 (chunkSize_of 1000003 4) = 750000
   \<and> endByte 1000003 4 3 (chunkSize_of 1000003 4) = 1000002
   \<and> chunk_bytes 1000003 4 0 \<inter> chunk_bytes 1000003 4 3 = {}
   \<and> (\<Union>i\<in>{0..<4}. chunk_bytes 1000003 4 i) = {0 .. 1000002}"
proof -
  have p: "chunkSize_of 1000003 4 = 1000003 div 4
     \<and> (\<forall>i. 0 \<le> i \<and> i < 4 - 1 \<longrightarrow>
           startByte i (chunkSize_of 1000003 4) = i * (1000003 div 4)
         \<and> endByte 1000003 4 i (chunkSize_of 1000003 4) = (i + 1) * (1000003 div 4) - 1
         \<and> endByte 1000003 4 i (chunkSize_of 1000003 4) + 1
             = startByte (i + 1) (chunkSize_of 1000003 4))
     \<and> startByte 0 (chunkSize_of 1000003 4) = 0
     \<and> startByte (4 - 1) (chunkSize_of 1000003 4) = (4 - 1) * (1000003 div 4)
     \<and> endByte 1000003 4 (4 - 1) (chunkSize_of 1000003 4) = 1000003 - 1
     \<and> (\<forall>i j. 0 \<le> i \<and> i < j \<and> j < 4 \<longrightarrow>
           chunk_bytes 1000003 4 i \<inter> chunk_bytes 1000003 4 j = {})
     \<and> (\<Union>i\<in>{0..<4}. chunk_bytes 1000003 4 i) = {0 .. 1000003 - 1}"
    by (rule partition_exact) simp_all
  from p have f1: "chunkSize_of 1000003 4 = 250000" by simp
  from p have f2: "startByte 0 (chunkSize_of 1000003 4) = 0" by blast
  from p have "\<forall>i. 0 \<le> i \<and> i < 4 - 1 \<longrightarrow>
      endByte 1000003 4 i (chunkSize_of 1000003 4) = (i + 1) * (1000003 div 4) - 1"
    by blast
  then have f3: "endByte 1000003 4 2 (chunkSize_of 1000003 4) = 749999"
    by (drule_tac x = 2 in spec) simp
  from p have "startByte (4 - 1) (chunkSize_of 1000003 4) = (4 - 1) * (1000003 div 4)"
    by blast
  then have f4: "startByte 3 (chunkSize_of 1000003 4) = 750000" by simp
  from p have "endByte 1000003 4 (4 - 1) (chunkSize_of 1000003 4) = 1000003 - 1"
    by blast
  then have f5: "endByte 1000003 4 3 (chunkSize_of 1000003 4) = 1000002" by simp
  from p have "\<forall>i j. 0 \<le> i \<and> i < j \<and> j < 4 \<longrightarrow>
      chunk_bytes 1000003 4 i \<inter> chunk_bytes 1000003 4 j = {}"
    by blast
  then have f6: "chunk_bytes 1000003 4 0 \<inter> chunk_bytes 1000003 4 3 = {}"
    by (drule_tac x = 0 in spec, drule_tac x = 3 in spec) simp
  from p have "(\<Union>i\<in>{0..<4}. chunk_bytes 1000003 4 i) = {0 .. 1000003 - 1}"
    by blast
  then have f7: "(\<Union>i\<in>{0..<4}. chunk_bytes 1000003 4 i) = {0 .. 1000002}" by simp
  show ?thesis using f1 f2 f3 f4 f5 f6 f7 by blast
qed

section \<open>Properties of the registry\<close>

text \<open>
  Claim C10. When the download registered under an identifier is in any status other
  than downloading (pending, paused, completed or error), \<open>DeleteDownload\<close> returns no
  error, leaves the \<^verbatim>\<open>Download\<close> object as it is, removes only that registry entry and
  returns the disk unchanged: no chunk file and no output file is deleted. A
  \<open>GetDownload\<close> for the identifier afterwards answers not found.
\<close>

theorem delete_keeps_files:
  assumes "m ident = Some d" and "Status d \<noteq> StatusDownloading"
  shows "DeleteDownload m dsk ident = (None, Some d, m(ident := None), dsk)
       \<and> GetDownload (m(ident := None)) ident = Inl NotFound"
  using assms by (simp add: DeleteDownload_def GetDownload_def)

text \<open>A paused download with two partial chunk files: after the deletion both files are
  still on the disk.\<close>

theorem delete_keeps_files_witness:
  "DeleteDownload [''7'' \<mapsto> (probed 2)\<lparr>Status := StatusPaused\<rparr>] disk_short ''7''
     = (None, Some ((probed 2)\<lparr>Status := StatusPaused\<rparr>),
        [''7'' \<mapsto> (probed 2)\<lparr>Status := StatusPaused\<rparr>](''7'' := None), disk_short)
   \<and> GetDownload ([''7'' \<mapsto> (probed 2)\<lparr>Status := StatusPaused\<rparr>](''7'' := None)) ''7''
     = Inl NotFound
   \<and> disk_short ''chunk_7_0.tmp'' = Some ''hello''"
  using delete_keeps_files [of "[''7'' \<mapsto> (probed 2)\<lparr>Status := StatusPaused\<rparr>]" "''7''"
      "(probed 2)\<lparr>Status := StatusPaused\<rparr>" disk_short]
  by (simp add: disk_short_def)




section \<open>Files after merge and completion\<close>
































section \<open>The probe\<close>
























section \<open>Read timeout\<close>

lemma chunk_iteration_retimed:
  "chunk_iteration e name i a r (with_timeouts ct rt d, k, n)
     = (case chunk_iteration e name i a r (d, k, n) of
          Continue (d', k', n') \<Rightarrow> Continue (with_timeouts ct rt d', k', n')
        | Break (d', k', n') \<Rightarrow> Break (with_timeouts ct rt d', k', n')
        | Fail x (d', k', n') \<Rightarrow> Fail x (with_timeouts ct rt d', k', n')
        | Crash \<Rightarrow> Crash)"
  by (cases r)
     (simp add: chunk_iteration_def with_timeouts_def Let_def
           split: option.split read_err.split)

lemma downloadLoop_retimed:
  "downloadLoop e name i a body (with_timeouts ct rt d, k, n)
     = (case downloadLoop e name i a body (d, k, n) of
          Return (x, d', k', n') \<Rightarrow> Return (x, with_timeouts ct rt d', k', n')
        | Panic s \<Rightarrow> Panic s
        | Blocked \<Rightarrow> Blocked)"
proof (induction body arbitrary: d k n)
  case Nil
  show ?case by simp
next
  case (Cons r body)
  show ?case
  proof (cases "chunk_iteration e name i a r (d, k, n)")
    case (Continue st)
    obtain d1 k1 n1 where st: "st = (d1, k1, n1)" by (cases st) auto
    with Continue Cons.IH [of d1 k1 n1] show ?thesis
      by (simp add: chunk_iteration_retimed)
  next
    case (Break st)
    obtain d1 k1 n1 where "st = (d1, k1, n1)" by (cases st) auto
    with Break show ?thesis by (simp add: chunk_iteration_retimed)
  next
    case (Fail x st)
    obtain d1 k1 n1 where "st = (d1, k1, n1)" by (cases st) auto
    with Fail show ?thesis by (simp add: chunk_iteration_retimed)
  next
    case Crash
    then show ?thesis by (simp add: chunk_iteration_retimed)
  qed
qed

lemma openChunk_retimed:
  "openChunk e (with_timeouts ct rt d) dsk i cs = openChunk e d dsk i cs"
proof -
  have f: "URL (with_timeouts ct rt d) = URL d" "ID (with_timeouts ct rt d) = ID d"
    "d_endByte (with_timeouts ct rt d) i cs = d_endByte d i cs"
    "d_actualChunkSize (with_timeouts ct rt d) i cs = d_actualChunkSize d i cs"
    by (simp_all add: with_timeouts_def d_endByte_def d_actualChunkSize_def)
  show ?thesis unfolding openChunk_def f ..
qed

lemma downloadChunk_retimed:
  "downloadChunk e (with_timeouts ct rt d) dsk i cs = retimed ct rt (downloadChunk e d dsk i cs)"
proof (cases "openChunk e d dsk i cs")
  case (Pair a dsk1)
  show ?thesis
  proof (cases a)
    case (Inl x)
    with Pair show ?thesis
      by (simp add: downloadChunk_def openChunk_retimed retimed_def)
  next
    case (Inr t)
    obtain name actual body where t: "t = (name, actual, body)" by (cases t) auto
    show ?thesis
    proof (cases "downloadLoop e name i actual body (d, dsk1, 0)")
      case (Return u)
      obtain x d' k n where "u = (x, d', k, n)" by (cases u) auto
      with Pair Inr t Return show ?thesis
        by (cases x)
           (simp_all add: downloadChunk_def openChunk_retimed retimed_def downloadLoop_retimed)
    next
      case (Panic s)
      with Pair Inr t show ?thesis
        by (simp add: downloadChunk_def openChunk_retimed retimed_def downloadLoop_retimed)
    next
      case Blocked
      with Pair Inr t show ?thesis
        by (simp add: downloadChunk_def openChunk_retimed retimed_def downloadLoop_retimed)
    qed
  qed
qed

text \<open>
  Claim C4 fails on the code. The read timeout is taken with the request, stored in
  the \<^verbatim>\<open>Download\<close> and returned with it, but \<^verbatim>\<open>downloadChunk\<close> builds its client
  as \<^verbatim>\<open>&http.Client{}\<close> (manager.go:217), without any deadline, and never reads
  \<^verbatim>\<open>d.ReadTimeout\<close>: the outcome of a chunk fetch is the same for every setting of
  the two timeouts. When the origin sends three bytes of a five-byte range and then
  nothing more, the fetch waits in its next read under every read timeout; it never
  returns, and so never fails with a timeout error.
\<close>

theorem read_timeout_ignored:
  "downloadChunk e (with_timeouts ct rt d) dsk i cs = retimed ct rt (downloadChunk e d dsk i cs)
   \<and> downloadChunk (origin (probe 10 ''bytes'') get_stalled) (with_timeouts ct rt (probed 2))
         Map.empty 0 5 = Blocked"
proof
  show "downloadChunk e (with_timeouts ct rt d) dsk i cs
          = retimed ct rt (downloadChunk e d dsk i cs)"
    by (rule downloadChunk_retimed)
next
  have "downloadChunk (origin (probe 10 ''bytes'') get_stalled) (probed 2) Map.empty 0 5
          = Blocked"
    by (simp add: eval_defs)
  then show "downloadChunk (origin (probe 10 ''bytes'') get_stalled)
      (with_timeouts ct rt (probed 2)) Map.empty 0 5 = Blocked"
    by (simp add: downloadChunk_retimed retimed_def)
qed

text \<open>The stalled origin with the read timeout as created, ten minutes, and with a read
  timeout of one second.\<close>

theorem read_timeout_ignored_witness:
  "ReadTimeout (probed 2) = ''10m''
   \<and> downloadChunk (origin (probe 10 ''bytes'') get_stalled) (probed 2) Map.empty 0 5 = Blocked
   \<and> ReadTimeout (with_timeouts ''30s'' ''1s'' (probed 2)) = ''1s''
   \<and> downloadChunk (origin (probe 10 ''bytes'') get_stalled)
        (with_timeouts ''30s'' ''1s'' (probed 2)) Map.empty 0 5 = Blocked"
proof -
  have same: "with_timeouts ''30s'' ''10m'' (probed 2) = probed 2"
    by (simp add: with_timeouts_def probed_def created_def)
  from read_timeout_ignored [of _ "''30s''" "''10m''"]
  have "downloadChunk (origin (probe 10 ''bytes'') get_stalled) (probed 2) Map.empty 0 5
          = Blocked"
    unfolding same by blast
  moreover from read_timeout_ignored [of _ "''30s''" "''1s''"]
  have "downloadChunk (origin (probe 10 ''bytes'') get_stalled)
          (with_timeouts ''30s'' ''1s'' (probed 2)) Map.empty 0 5 = Blocked"
    by blast
  moreover have "ReadTimeout (probed 2) = ''10m''"
    "ReadTimeout (with_timeouts ''30s'' ''1s'' (probed 2)) = ''1s''"
    by (simp_all add: with_timeouts_def probed_def created_def)
  ultimately show ?thesis by simp
qed

section \<open>Failed chunks, progress and pause\<close>

text \<open>
  Claim C5 fails on the code. Two chunks of five bytes: the first is fetched in full,
  the second is answered with status 200. The download enters the error state and the
  temporary file of the first chunk stays on the disk.
\<close>

theorem failed_chunk_leaves_temporaries:
  "startDownload (origin (probe 10 ''bytes'') get_second_refused) (created 2) Map.empty
     = Return ((created 2)\<lparr>Status := StatusError, TotalSize := 10, ChunkProgress := [100, 0],
                 Error := Some (SomeChunksFailed [ChunkFailed 1 (ChunkStatus 1 200)])\<rparr>,
               [''chunk_7_0.tmp'' \<mapsto> ''hello''])"
  by (simp add: eval_defs)

text \<open>The run ends in status error with \<^verbatim>\<open>chunk_7_0.tmp\<close> present.\<close>

theorem failed_chunk_leaves_temporaries_witness:
  "(case startDownload (origin (probe 10 ''bytes'') get_second_refused) (created 2) Map.empty of
      Return (d, k) \<Rightarrow> Status d = StatusError \<and> k (chunkFileName (ID d) 0) = Some ''hello''
    | Panic s \<Rightarrow> False
    | Blocked \<Rightarrow> False)"
  using failed_chunk_leaves_temporaries
  by (simp add: created_def chunkFileName_def show_int_def digit_char_def)

text \<open>
  Claim C7 fails on the code. Ten bytes in four chunks of 2, 2, 2 and 4 bytes: when the
  first three workers have finished and the fourth has read nothing, the tick writes
  \<open>Downloaded = 7\<close> while the byte counters of the workers are 2, 2, 2 and 0.
\<close>

theorem tick_downloaded_not_counter_sum:
  "map_option (\<lambda>s. (Downloaded (download s), counters s))
     (run_schedule (origin (probe 10 ''bytes'') get_quarters)
        [WorkerStep 0, WorkerStep 1, WorkerStep 2, Tick]
        (running (origin (probe 10 ''bytes'') get_quarters) (probed 4)))
   = Some (7, [2, 2, 2, 0])"
  by (simp add: eval_defs)

text \<open>The value written differs from the sum of the counters, which is 6.\<close>

theorem tick_downloaded_not_counter_sum_witness:
  "\<exists>s. run_schedule (origin (probe 10 ''bytes'') get_quarters)
          [WorkerStep 0, WorkerStep 1, WorkerStep 2, Tick]
          (running (origin (probe 10 ''bytes'') get_quarters) (probed 4)) = Some s
      \<and> Downloaded (download s) = 7 \<and> sum_list (counters s) = 6"
  using tick_downloaded_not_counter_sum by auto

text \<open>
  Claim C3 fails on the code. Two workers are at the head of their loops. After the
  pause call and the receive by the first worker the send has returned, the status is
  paused, the first worker is parked and the file of the second chunk is empty. The
  second worker then takes a step, without any resume, and its file holds three bytes.
\<close>

theorem pause_parks_one_worker:
  "map_option (\<lambda>s. (Status (download s), sender s, map w_pc (workers s),
                     disk s ''chunk_7_1.tmp''))
     (run_schedule (origin (probe 10 ''bytes'') get_halves) [PauseCall, WorkerStep 0]
        (running (origin (probe 10 ''bytes'') get_halves) (probed 2)))
   = Some (StatusPaused, None, [Parked, AtSelect], Some [])
   \<and> map_option (\<lambda>s. (Status (download s), sender s, map w_pc (workers s),
                     disk s ''chunk_7_1.tmp''))
     (run_schedule (origin (probe 10 ''bytes'') get_halves)
        [PauseCall, WorkerStep 0, WorkerStep 1]
        (running (origin (probe 10 ''bytes'') get_halves) (probed 2)))
   = Some (StatusPaused, None, [Parked, AtSelect], Some ''wor'')"
  by (simp add: eval_defs)

text \<open>Bytes written to the second chunk file while the status is paused.\<close>

theorem pause_parks_one_worker_witness:
  "\<exists>s. run_schedule (origin (probe 10 ''bytes'') get_halves)
          [PauseCall, WorkerStep 0, WorkerStep 1]
          (running (origin (probe 10 ''bytes'') get_halves) (probed 2)) = Some s
      \<and> Status (download s) = StatusPaused
      \<and> disk s ''chunk_7_1.tmp'' = Some ''wor''"
  using pause_parks_one_worker by auto

end
